theory Spec2Isabelle
  imports Complex_Main
begin

section \<open>Tables of daily prices\<close>

text \<open>
  The script works on pandas DataFrames. A DataFrame is modelled as the list of its rows,
  in positional order. A numeric cell is a \<open>real option\<close>: \<open>None\<close> is the missing value
  (NaN), \<open>Some x\<close> the number \<open>x\<close>; Python floats are idealised as reals. Every row
  carries its index label \<open>idx\<close>, which \<open>reset_index\<close> sets to the position and which
  \<open>dropna\<close> and \<open>tail\<close> leave unchanged.

  The functions of pandas, scikit-learn, joblib and argparse that the script calls are
  not part of the repository: their definitions below follow the documented behaviour of
  these libraries, and the calls that leave the program (the data provider, the
  least-squares solver) are parameters.
\<close>

type_synonym cell = "real option"

text \<open>A row as the data provider returns it: indexed by its date, with the OHLCV columns.\<close>

record raw_row =
  rDate :: int
  rOpen :: cell
  rHigh :: cell
  rLow :: cell
  rClose :: cell
  rVolume :: cell

text \<open>A row of the table that \<open>download_data\<close> returns: \<open>Date\<close> is a column now.\<close>

record price_row =
  idx :: nat
  Date :: int
  Open :: cell
  High :: cell
  Low :: cell
  Close :: cell
  Volume :: cell

text \<open>A row of the table that \<open>make_features\<close> returns: four more columns.\<close>

record feature_row = price_row +
  Day :: nat
  Close_lag1 :: cell
  Close_lag2 :: cell
  Close_lag3 :: cell

subsection \<open>The pandas operations the script calls\<close>

text \<open>\<open>df.reset_index()\<close>: the date index becomes a column, the new index is the position.\<close>

definition reset_index :: "raw_row list \<Rightarrow> price_row list" where
  "reset_index df =
     map (\<lambda>i. \<lparr>idx = i, Date = rDate (df ! i), Open = rOpen (df ! i), High = rHigh (df ! i),
               Low = rLow (df ! i), Close = rClose (df ! i), Volume = rVolume (df ! i)\<rparr>)
         [0..<length df]"

text \<open>A row has a missing value when one of its numeric cells is NaN.\<close>

definition price_isna :: "'a price_row_scheme \<Rightarrow> bool" where
  "price_isna r \<longleftrightarrow>
     Open r = None \<or> High r = None \<or> Low r = None \<or> Close r = None \<or> Volume r = None"

definition feature_isna :: "feature_row \<Rightarrow> bool" where
  "feature_isna r \<longleftrightarrow>
     price_isna r \<or> Close_lag1 r = None \<or> Close_lag2 r = None \<or> Close_lag3 r = None"

text \<open>\<open>df.dropna(inplace=True)\<close>: the rows with a missing value go, the others keep their
  order and their labels.\<close>

definition dropna :: "price_row list \<Rightarrow> price_row list" where
  "dropna df = filter (\<lambda>r. \<not> price_isna r) df"

definition dropna_features :: "feature_row list \<Rightarrow> feature_row list" where
  "dropna_features df = filter (\<lambda>r. \<not> feature_isna r) df"

text \<open>\<open>series.shift(k)\<close> for \<open>k \<ge> 0\<close>: position \<open>i\<close> receives the value of position
  \<open>i - k\<close>, the first \<open>k\<close> positions are NaN, the length is unchanged.\<close>

definition shift :: "nat \<Rightarrow> cell list \<Rightarrow> cell list" where
  "shift k xs = replicate (min k (length xs)) None @ take (length xs - k) xs"

text \<open>\<open>df.tail(k)\<close>: the last \<open>k\<close> rows (all of them when there are fewer).\<close>

definition tail :: "nat \<Rightarrow> 'a list \<Rightarrow> 'a list" where
  "tail k df = drop (length df - k) df"

section \<open>Data utilities\<close>

text \<open>
  \<open>download_data\<close>. The call \<open>yf.download(ticker, period=period, interval="1d",
  auto_adjust=True, progress=False)\<close> is the parameter \<open>yf_download\<close>: a function from
  ticker and period to the rows the provider returns (no rows when the ticker is unknown
  or the network is down: the library reports that on the console and returns an empty
  table).
\<close>

type_synonym provider = "string \<Rightarrow> string \<Rightarrow> raw_row list"

definition download_data :: "provider \<Rightarrow> string \<Rightarrow> string \<Rightarrow> price_row list" where
  "download_data yf_download ticker period =
     (let df = yf_download ticker period;
          df = reset_index df
      in dropna df)"

text \<open>
  \<open>make_features\<close>: \<open>Day\<close> is \<open>np.arange(len(df))\<close>, \<open>Close_lag\<close>k is
  \<open>df["Close"].shift(k)\<close> for k in 1, 2, 3, then the rows with a missing value are dropped.
\<close>

definition add_columns :: "price_row \<Rightarrow> nat \<Rightarrow> cell \<Rightarrow> cell \<Rightarrow> cell \<Rightarrow> feature_row" where
  "add_columns r d l1 l2 l3 =
     \<lparr>idx = idx r, Date = Date r, Open = Open r, High = High r, Low = Low r, Close = Close r,
      Volume = Volume r, Day = d, Close_lag1 = l1, Close_lag2 = l2, Close_lag3 = l3\<rparr>"

definition make_features :: "price_row list \<Rightarrow> feature_row list" where
  "make_features df =
     (let n = length df;
          day = [0..<n];
          closes = map Close df;
          lag1 = shift 1 closes;
          lag2 = shift 2 closes;
          lag3 = shift 3 closes
      in dropna_features
           (map (\<lambda>i. add_columns (df ! i) (day ! i) (lag1 ! i) (lag2 ! i) (lag3 ! i)) [0..<n]))"

section \<open>The scikit-learn operations the script calls\<close>

text \<open>
  Exceptions are values. The script defines no exception class of its own: every failure
  is the exception of the library call that raises it, or the exit of \<open>ap.error\<close>. The
  string of an error names the check that raised it.
\<close>

datatype error =
    ValueError string
  | AttributeError string
  | IndexError
  | FileNotFoundError string
  | UnpicklingError string
  | SystemExit nat

text \<open>
  \<open>train_test_split(X, y, test_size=test_size, shuffle=False)\<close> with a float
  \<open>test_size\<close>. The sizes come from \<open>_validate_shuffle_split\<close>: the fraction must lie
  strictly between 0 and 1, \<open>n_test = ceil(test_size * n_samples)\<close>,
  \<open>n_train = n_samples - n_test\<close>, and an empty training set is refused. Without
  shuffling the training indices are \<open>arange(n_train)\<close> and the test indices
  \<open>arange(n_train, n_train + n_test)\<close>.
\<close>

definition validate_shuffle_split :: "nat \<Rightarrow> real \<Rightarrow> error + nat \<times> nat" where
  "validate_shuffle_split n_samples test_size =
     (if test_size \<le> 0 \<or> test_size \<ge> 1
      then Inl (ValueError ''test_size must be a float in (0, 1)'')
      else
        let n_test = \<lceil>test_size * real n_samples\<rceil>;
            n_train = int n_samples - n_test
        in if n_train + n_test > int n_samples
           then Inl (ValueError ''train_size + test_size exceeds n_samples'')
           else if n_train = 0
           then Inl (ValueError ''the resulting train set will be empty'')
           else Inr (nat n_train, nat n_test))"

definition train_test_split ::
  "'a list \<Rightarrow> 'b list \<Rightarrow> real \<Rightarrow> error + ('a list \<times> 'a list \<times> 'b list \<times> 'b list)" where
  "train_test_split X y test_size =
     (if length X \<noteq> length y
      then Inl (ValueError ''inconsistent numbers of samples'')
      else case validate_shuffle_split (length X) test_size of
        Inl e \<Rightarrow> Inl e
      | Inr (n_train, n_test) \<Rightarrow>
          let train = [0..<n_train];
              test = [n_train..<n_train + n_test]
          in Inr (map (\<lambda>i. X ! i) train, map (\<lambda>i. X ! i) test,
                  map (\<lambda>i. y ! i) train, map (\<lambda>i. y ! i) test))"

text \<open>
  \<open>check_array\<close>: an estimator refuses a table with no rows and, in the linear model,
  a table with a missing value. The result is the matrix of numbers, one list per row.
\<close>

definition check_array :: "cell list list \<Rightarrow> error + real list list" where
  "check_array X =
     (if X = [] then Inl (ValueError ''Found array with 0 sample(s)'')
      else case those (map those X) of
        None \<Rightarrow> Inl (ValueError ''Input contains NaN'')
      | Some M \<Rightarrow> Inr M)"

definition check_targets :: "cell list \<Rightarrow> error + real list" where
  "check_targets y =
     (case those y of
        None \<Rightarrow> Inl (ValueError ''Input contains NaN'')
      | Some v \<Rightarrow> Inr v)"

definition n_features :: "'a list list \<Rightarrow> nat" where
  "n_features X = (case X of [] \<Rightarrow> 0 | row # _ \<Rightarrow> length row)"

definition column :: "real list list \<Rightarrow> nat \<Rightarrow> real list" where
  "column X j = map (\<lambda>row. row ! j) X"

definition mean :: "real list \<Rightarrow> real" where
  "mean xs = sum_list xs / real (length xs)"

definition variance :: "real list \<Rightarrow> real" where
  "variance xs = (let m = mean xs in sum_list (map (\<lambda>x. (x - m)\<^sup>2) xs) / real (length xs))"

text \<open>
  \<open>StandardScaler\<close>: per column the mean, the population variance and the scale, which
  is the standard deviation, or 1 for a constant column.
\<close>

text \<open>The fields are sklearn's \<open>mean_\<close>, \<open>var_\<close> and \<open>scale_\<close>.\<close>

record scaler =
  sc_mean :: "real list"
  sc_var :: "real list"
  sc_scale :: "real list"

definition StandardScaler_fit :: "real list list \<Rightarrow> scaler" where
  "StandardScaler_fit X =
     (let cols = map (column X) [0..<n_features X];
          var = map variance cols
      in \<lparr>sc_mean = map mean cols, sc_var = var,
          sc_scale = map (\<lambda>v. if v = 0 then 1 else sqrt v) var\<rparr>)"

definition StandardScaler_transform :: "scaler \<Rightarrow> real list list \<Rightarrow> real list list" where
  "StandardScaler_transform s X =
     map (\<lambda>row. map (\<lambda>j. (row ! j - sc_mean s ! j) / sc_scale s ! j) [0..<length row]) X"

text \<open>
  \<open>LinearRegression\<close> with an intercept: the data are centred, the coefficients are the
  least-squares solution for the centred data, the intercept follows from the offsets.
  The least-squares solver of the numerical library is the parameter \<open>lstsq\<close>.
\<close>

type_synonym lstsq = "real list list \<Rightarrow> real list \<Rightarrow> real list"

text \<open>The fields are sklearn's \<open>coef_\<close> and \<open>intercept_\<close>.\<close>

record linreg =
  lr_coef :: "real list"
  lr_intercept :: real

definition dot :: "real list \<Rightarrow> real list \<Rightarrow> real" where
  "dot xs ys = sum_list (map2 (*) xs ys)"

definition LinearRegression_fit :: "lstsq \<Rightarrow> real list list \<Rightarrow> real list \<Rightarrow> linreg" where
  "LinearRegression_fit solve X y =
     (let X_offset = map (\<lambda>j. mean (column X j)) [0..<n_features X];
          y_offset = mean y;
          Xc = map (\<lambda>row. map2 (-) row X_offset) X;
          yc = map (\<lambda>v. v - y_offset) y;
          coef = solve Xc yc
      in \<lparr>lr_coef = coef, lr_intercept = y_offset - dot X_offset coef\<rparr>)"

definition LinearRegression_predict :: "linreg \<Rightarrow> real list list \<Rightarrow> real list" where
  "LinearRegression_predict m X = map (\<lambda>row. dot row (lr_coef m) + lr_intercept m) X"

text \<open>The pipeline of the script: the scaler, then the linear model.\<close>

record pipeline =
  scaler :: scaler
  lr :: linreg

definition pipe_fit :: "lstsq \<Rightarrow> cell list list \<Rightarrow> cell list \<Rightarrow> error + pipeline" where
  "pipe_fit solve X y =
     (case check_array X of
        Inl e \<Rightarrow> Inl e
      | Inr M \<Rightarrow>
          (case check_targets y of
             Inl e \<Rightarrow> Inl e
           | Inr v \<Rightarrow>
               let sc = StandardScaler_fit M;
                   Xt = StandardScaler_transform sc M
               in Inr \<lparr>scaler = sc, lr = LinearRegression_fit solve Xt v\<rparr>))"

text \<open>
  \<open>pipe.predict(X)\<close>: the scaler refuses a table with no rows, and one whose number of
  columns is not the one it was fitted on; the linear model refuses a missing value; a
  zero scale makes the scaled values infinite or NaN, which the linear model refuses too,
  as it refuses a coefficient vector of another length.
\<close>

definition pipe_predict :: "pipeline \<Rightarrow> cell list list \<Rightarrow> error + real list" where
  "pipe_predict p X =
     (if X = [] then Inl (ValueError ''Found array with 0 sample(s)'')
      else if n_features X \<noteq> length (sc_mean (scaler p)) \<or>
              length (sc_scale (scaler p)) \<noteq> length (sc_mean (scaler p))
      then Inl (ValueError ''X has a different number of features than the scaler expects'')
      else case check_array X of
        Inl e \<Rightarrow> Inl e
      | Inr M \<Rightarrow>
          if 0 \<in> set (sc_scale (scaler p))
          then Inl (ValueError ''Input contains infinity or NaN'')
          else if length (lr_coef (lr p)) \<noteq> n_features M
          then Inl (ValueError ''X has a different number of features than the model expects'')
          else Inr (LinearRegression_predict (lr p) (StandardScaler_transform (scaler p) M)))"

text \<open>The two metrics. \<open>r2_score\<close> is NaN on fewer than two samples; a constant target
  gives 1 for a perfect prediction and 0 otherwise.\<close>

definition mean_absolute_error :: "real list \<Rightarrow> real list \<Rightarrow> real" where
  "mean_absolute_error y pred = mean (map2 (\<lambda>a b. \<bar>a - b\<bar>) y pred)"

definition r2_score :: "real list \<Rightarrow> real list \<Rightarrow> cell" where
  "r2_score y pred =
     (if length y < 2 then None
      else
        let numerator = sum_list (map2 (\<lambda>a b. (a - b)\<^sup>2) y pred);
            denominator = sum_list (map (\<lambda>a. (a - mean y)\<^sup>2) y)
        in if denominator \<noteq> 0 then Some (1 - numerator / denominator)
           else if numerator = 0 then Some 1
           else Some 0)"

section \<open>Files, console and network\<close>

text \<open>
  What a run does to the outside is explicit state: the files, and the trace of the
  calls to the data provider, of the directories made and of the lines printed. A printed
  line carries the numbers it formats.
\<close>

datatype printed =
    Metrics real cell
  | ModelSaved string
  | PlotSaved string
  | Forecast string real

datatype event =
    Network string string
  | Stdout printed
  | Stderr string
  | Mkdir string

text \<open>
  A file written by \<open>joblib.dump\<close> holds the pickle of a Python object, and
  \<open>joblib.load\<close> gives back an equal object; the bytes in between are not modelled. The
  object is the script's pipeline (with whatever fitted arrays it holds) or any other
  object, which has no \<open>predict\<close> method. A file can also be the image of a plot, or
  bytes that are no pickle.
\<close>

datatype pyobj = PyPipeline pipeline | PyOther string

record figure =
  title :: string
  xlabel :: string
  ylabel :: string
  lines :: "(string \<times> bool \<times> (int \<times> cell) list) list"

datatype filedata = Pickle pyobj | Png figure | Bytes "nat list"

record world =
  files :: "string \<rightharpoonup> filedata"
  trace :: "event list"

definition emit :: "world \<Rightarrow> event \<Rightarrow> world" where
  "emit w e = w\<lparr>trace := trace w @ [e]\<rparr>"

text \<open>The calls to the data provider that a world has seen.\<close>

definition network_calls :: "world \<Rightarrow> event list" where
  "network_calls w = filter (\<lambda>e. case e of Network tk p \<Rightarrow> True | _ \<Rightarrow> False) (trace w)"

definition write_file :: "world \<Rightarrow> string \<Rightarrow> filedata \<Rightarrow> world" where
  "write_file w path d = w\<lparr>files := (files w)(path \<mapsto> d)\<rparr>"

definition joblib_dump :: "pyobj \<Rightarrow> string \<Rightarrow> world \<Rightarrow> world" where
  "joblib_dump obj path w = write_file w path (Pickle obj)"

definition joblib_load :: "world \<Rightarrow> string \<Rightarrow> error + pyobj" where
  "joblib_load w path =
     (case files w path of
        None \<Rightarrow> Inl (FileNotFoundError path)
      | Some (Pickle obj) \<Rightarrow> Inr obj
      | Some (Png f) \<Rightarrow> Inl (UnpicklingError path)
      | Some (Bytes b) \<Rightarrow> Inl (UnpicklingError path))"

text \<open>\<open>obj.predict(X)\<close> on a loaded object.\<close>

definition py_predict :: "pyobj \<Rightarrow> cell list list \<Rightarrow> error + real list" where
  "py_predict obj X =
     (case obj of
        PyPipeline p \<Rightarrow> pipe_predict p X
      | PyOther name \<Rightarrow> Inl (AttributeError ''predict''))"

text \<open>\<open>str.lower()\<close> on ASCII letters, and \<open>dir / name\<close> of \<open>pathlib\<close>, where an absolute
  right operand replaces the left one.\<close>

definition lower_char :: "char \<Rightarrow> char" where
  "lower_char c =
     (let n = (of_char c :: nat) in if 65 \<le> n \<and> n \<le> 90 then char_of (n + 32) else c)"

definition lower :: "string \<Rightarrow> string" where
  "lower s = map lower_char s"

definition path_join :: "string \<Rightarrow> string \<Rightarrow> string" where
  "path_join dir name =
     (case name of
        [] \<Rightarrow> dir
      | c # cs \<Rightarrow> if c = CHR ''/'' then name else dir @ ''/'' @ name)"

section \<open>Train and predict helpers\<close>

text \<open>The columns \<open>df[["Day", "Close_lag1", "Close_lag2", "Close_lag3"]]\<close> and
  \<open>df["Close"]\<close>, each row with its index label.\<close>

definition select_X :: "feature_row list \<Rightarrow> (nat \<times> cell list) list" where
  "select_X df =
     map (\<lambda>r. (idx r, [Some (real (Day r)), Close_lag1 r, Close_lag2 r, Close_lag3 r])) df"

definition select_y :: "feature_row list \<Rightarrow> (nat \<times> cell) list" where
  "select_y df = map (\<lambda>r. (idx r, Close r)) df"

text \<open>What \<open>train_model\<close> returns: \<open>pipe, X_train.index, X_test.index, y_train, y_test,
  pred\<close>.\<close>

record train_result =
  tr_pipe :: pipeline
  tr_train_idx :: "nat list"
  tr_test_idx :: "nat list"
  tr_y_train :: "(nat \<times> cell) list"
  tr_y_test :: "(nat \<times> cell) list"
  tr_pred :: "real list"

definition train_model ::
  "lstsq \<Rightarrow> feature_row list \<Rightarrow> real \<Rightarrow> world \<Rightarrow> (error + train_result) \<times> world" where
  "train_model solve df test_size w =
     (let X = select_X df;
          y = select_y df
      in case train_test_split X y test_size of
        Inl e \<Rightarrow> (Inl e, w)
      | Inr (X_train, X_test, y_train, y_test) \<Rightarrow>
          (case pipe_fit solve (map snd X_train) (map snd y_train) of
             Inl e \<Rightarrow> (Inl e, w)
           | Inr pipe \<Rightarrow>
               (case pipe_predict pipe (map snd X_test) of
                  Inl e \<Rightarrow> (Inl e, w)
                | Inr pred \<Rightarrow>
                    (case check_targets (map snd y_test) of
                       Inl e \<Rightarrow> (Inl e, w)
                     | Inr yt \<Rightarrow>
                         let mae = mean_absolute_error yt pred;
                             r2 = r2_score yt pred
                         in (Inr \<lparr>tr_pipe = pipe, tr_train_idx = map fst X_train,
                                  tr_test_idx = map fst X_test, tr_y_train = y_train,
                                  tr_y_test = y_test, tr_pred = pred\<rparr>,
                             emit w (Stdout (Metrics mae r2)))))))"

text \<open>\<open>df.loc[labels, "Date"]\<close>: the dates of the rows with these labels, in the order of
  the labels.\<close>

definition loc_Date :: "feature_row list \<Rightarrow> nat list \<Rightarrow> int list" where
  "loc_Date df labels = concat (map (\<lambda>l. map Date (filter (\<lambda>r. idx r = l) df)) labels)"

definition plot_results ::
  "feature_row list \<Rightarrow> nat list \<Rightarrow> nat list \<Rightarrow> (nat \<times> cell) list \<Rightarrow> (nat \<times> cell) list \<Rightarrow>
   real list \<Rightarrow> string \<Rightarrow> string \<Rightarrow> world \<Rightarrow> world" where
  "plot_results df train_idx test_idx y_train y_test pred ticker out_dir w =
     (let fig = \<lparr>title = ticker @ '' - Linear Regression forecast'',
                 xlabel = ''Date'', ylabel = ''Close Price'',
                 lines =
                   [(''Train'', False, zip (loc_Date df train_idx) (map snd y_train)),
                    (''Test - Actual'', False, zip (loc_Date df test_idx) (map snd y_test)),
                    (''Test - Predicted'', True, zip (loc_Date df test_idx) (map Some pred))]\<rparr>;
          w = emit w (Mkdir out_dir);
          img_path = path_join out_dir (lower ticker @ ''_lr_plot.png'');
          w = write_file w img_path (Png fig)
      in emit w (Stdout (PlotSaved img_path)))"

section \<open>The command line\<close>

text \<open>The namespace that \<open>ap.parse_args()\<close> returns; \<open>model_path\<close> is \<open>None\<close> when the
  flag is absent.\<close>

record args =
  ticker :: string
  period :: string
  test_size :: real
  model_path :: "string option"
  predict :: bool

text \<open>\<open>ap.error(msg)\<close> prints the usage and the message on the error stream and exits
  with status 2.\<close>

definition ap_error :: "string \<Rightarrow> world \<Rightarrow> (error + unit) \<times> world" where
  "ap_error msg w = (Inl (SystemExit 2), emit w (Stderr msg))"

definition main :: "lstsq \<Rightarrow> provider \<Rightarrow> args \<Rightarrow> world \<Rightarrow> (error + unit) \<times> world" where
  "main solve yf_download a w =
     (if predict a then
        (case model_path a of
           None \<Rightarrow> ap_error ''--model_path is required with --predict'' w
         | Some path \<Rightarrow>
             if path = [] then ap_error ''--model_path is required with --predict'' w
             else
               (case joblib_load w path of
                  Inl e \<Rightarrow> (Inl e, w)
                | Inr pipe \<Rightarrow>
                    let w = emit w (Network (ticker a) ''10d'');
                        latest = tail 4 (download_data yf_download (ticker a) ''10d'');
                        latest = tail 1 (make_features latest);
                        X_latest = select_X latest
                    in (case py_predict pipe (map snd X_latest) of
                          Inl e \<Rightarrow> (Inl e, w)
                        | Inr preds \<Rightarrow>
                            (case preds of
                               [] \<Rightarrow> (Inl IndexError, w)
                             | pred # _ \<Rightarrow>
                                 (Inr (), emit w (Stdout (Forecast (ticker a) pred)))))))
      else
        let w = emit w (Network (ticker a) (period a));
            raw = download_data yf_download (ticker a) (period a);
            df = make_features raw
        in (case train_model solve df (test_size a) w of
              (Inl e, w) \<Rightarrow> (Inl e, w)
            | (Inr res, w) \<Rightarrow>
                let models_dir = ''models'';
                    w = emit w (Mkdir models_dir);
                    model_fp = path_join models_dir (lower (ticker a) @ ''_lr.pkl'');
                    w = joblib_dump (PyPipeline (tr_pipe res)) model_fp w;
                    w = emit w (Stdout (ModelSaved model_fp));
                    w = plot_results df (tr_train_idx res) (tr_test_idx res) (tr_y_train res)
                          (tr_y_test res) (tr_pred res) (ticker a) ''reports'' w
                in (Inr (), w)))"

section \<open>Sample data\<close>

text \<open>Concrete tables, solvers and worlds on which the theorems below are instantiated.\<close>

definition day_row :: "nat \<Rightarrow> real \<Rightarrow> price_row" where
  "day_row i c =
     \<lparr>idx = i, Date = int i, Open = Some c, High = Some c, Low = Some c, Close = Some c,
      Volume = Some 1000\<rparr>"

definition week :: "price_row list" where
  "week = [day_row 0 10, day_row 1 11, day_row 2 12, day_row 3 13, day_row 4 14]"

definition zero_solver :: lstsq where
  "zero_solver X y = replicate (n_features X) 0"

definition empty_world :: world where
  "empty_world = \<lparr>files = Map.empty, trace = []\<rparr>"



definition raw_day :: "int \<Rightarrow> real \<Rightarrow> raw_row" where
  "raw_day d c =
     \<lparr>rDate = d, rOpen = Some c, rHigh = Some c, rLow = Some c, rClose = Some c,
      rVolume = Some 1000\<rparr>"

definition week_provider :: provider where
  "week_provider tk p = [raw_day 0 10, raw_day 1 11, raw_day 2 12, raw_day 3 13, raw_day 4 14]"

definition no_rows :: provider where
  "no_rows tk p = []"

definition train_args :: args where
  "train_args =
     \<lparr>ticker = ''ACME'', period = ''5y'', test_size = 1 / 2, model_path = None,
      predict = False\<rparr>"

definition predict_args :: args where
  "predict_args =
     \<lparr>ticker = ''ACME'', period = ''5y'', test_size = 1 / 2,
      model_path = Some ''models/acme_lr.pkl'', predict = True\<rparr>"

text \<open>A pipeline over four features that forecasts the close of the day before, and one
  over three features.\<close>

definition naive_pipe :: pipeline where
  "naive_pipe =
     \<lparr>scaler = \<lparr>sc_mean = [0, 0, 0, 0], sc_var = [1, 1, 1, 1], sc_scale = [1, 1, 1, 1]\<rparr>,
      lr = \<lparr>lr_coef = [0, 1, 0, 0], lr_intercept = 0\<rparr>\<rparr>"


definition world_with :: "pyobj \<Rightarrow> world" where
  "world_with obj = \<lparr>files = [''models/acme_lr.pkl'' \<mapsto> Pickle obj], trace = []\<rparr>"

section \<open>The feature builder\<close>

lemma shift_nth:
  "i < length xs \<Longrightarrow> shift k xs ! i = (if i < k then None else xs ! (i - k))"
  by (auto simp: shift_def nth_append)

lemma filter_ge_upt: "filter (\<lambda>i. k \<le> i) [0..<n] = [k..<n]"
proof (induction n)
  case 0
  show ?case by simp
next
  case (Suc n)
  then show ?case by (cases "k \<le> n") (auto simp: upt_Suc_append simp del: upt_Suc)
qed

text \<open>On a table without missing values exactly the rows from position 3 on survive.\<close>

lemma make_features_eq:
  assumes "\<forall>r \<in> set df. \<not> price_isna r"
  shows "make_features df =
    map (\<lambda>i. add_columns (df ! i) i (Close (df ! (i - 1))) (Close (df ! (i - 2)))
               (Close (df ! (i - 3))))
        [3..<length df]"
proof -
  let ?n = "length df"
  let ?cl = "map Close df"
  let ?f = "\<lambda>i. add_columns (df ! i) ([0..<?n] ! i) (shift 1 ?cl ! i) (shift 2 ?cl ! i)
                  (shift 3 ?cl ! i)"
  let ?g = "\<lambda>i. add_columns (df ! i) i (Close (df ! (i - 1))) (Close (df ! (i - 2)))
                  (Close (df ! (i - 3)))"
  have some: "\<And>i. i < ?n \<Longrightarrow> \<not> price_isna (df ! i)"
    using assms by simp
  have keep: "\<And>i. i < ?n \<Longrightarrow> (\<not> feature_isna (?f i)) = (3 \<le> i)"
    using some by (auto simp: feature_isna_def add_columns_def price_isna_def shift_nth)
  have "make_features df = map ?f (filter (\<lambda>i. \<not> feature_isna (?f i)) [0..<?n])"
    by (simp add: make_features_def dropna_features_def filter_map comp_def Let_def)
  also have "filter (\<lambda>i. \<not> feature_isna (?f i)) [0..<?n] = filter (\<lambda>i. 3 \<le> i) [0..<?n]"
    by (rule filter_cong) (use keep in auto)
  also have "\<dots> = [3..<?n]" by (rule filter_ge_upt)
  also have "map ?f [3..<?n] = map ?g [3..<?n]"
    by (rule map_cong) (auto simp: shift_nth)
  finally show ?thesis .
qed

text \<open>
  C1. For a table of \<open>N\<close> price rows without missing values, \<open>make_features\<close> returns
  \<open>N - 3\<close> rows when \<open>N > 3\<close> and none otherwise. The row at position \<open>j\<close> of the result
  is the input row at position \<open>j + 3\<close> with four more columns: \<open>Day\<close> is that position,
  and \<open>Close_lag1\<close>, \<open>Close_lag2\<close>, \<open>Close_lag3\<close> are the closes one, two and three
  positions before it.
\<close>

theorem make_features_rows:
  assumes "\<forall>r \<in> set df. \<not> price_isna r"
  shows "length (make_features df) = (if length df > 3 then length df - 3 else 0) \<and>
         (\<forall>j < length (make_features df).
            Day (make_features df ! j) = j + 3 \<and>
            price_row.truncate (make_features df ! j) = df ! (j + 3) \<and>
            Close_lag1 (make_features df ! j) = Close (df ! (j + 3 - 1)) \<and>
            Close_lag2 (make_features df ! j) = Close (df ! (j + 3 - 2)) \<and>
            Close_lag3 (make_features df ! j) = Close (df ! (j + 3 - 3)))"
  by (auto simp: make_features_eq[OF assms] add_columns_def price_row.truncate_def add.commute)

theorem make_features_rows_witness:
  "list_all (\<lambda>r. \<not> price_isna r) week \<and> length (make_features week) = 2 \<and>
   Day (make_features week ! 1) = 4 \<and>
   price_row.truncate (make_features week ! 1) = day_row 4 14 \<and>
   Close_lag1 (make_features week ! 1) = Some 13 \<and>
   Close_lag2 (make_features week ! 1) = Some 12 \<and>
   Close_lag3 (make_features week ! 1) = Some 11"
proof -
  have h: "\<forall>r \<in> set week. \<not> price_isna r"
    by (simp add: week_def day_row_def price_isna_def)
  have l: "length week = 5" by (simp add: week_def)
  from make_features_rows[OF h] have len: "length (make_features week) = 2"
    using l by simp
  from make_features_rows[OF h] len have
    "Day (make_features week ! 1) = 1 + 3 \<and>
     price_row.truncate (make_features week ! 1) = week ! (1 + 3) \<and>
     Close_lag1 (make_features week ! 1) = Close (week ! (1 + 3 - 1)) \<and>
     Close_lag2 (make_features week ! 1) = Close (week ! (1 + 3 - 2)) \<and>
     Close_lag3 (make_features week ! 1) = Close (week ! (1 + 3 - 3))"
    by (metis one_less_numeral_iff semiring_norm(76))
  then show ?thesis using h len by (simp add: week_def day_row_def list_all_iff)
qed

section \<open>The chronological split\<close>

text \<open>Over the reals, \<open>n - ceil(t * n)\<close> is \<open>floor(n * (1 - t))\<close>.\<close>

lemma n_train_floor:
  "int n - \<lceil>t * real n\<rceil> = \<lfloor>real n * (1 - t)\<rfloor>"
proof -
  have "real n * (1 - t) = of_int (int n) + - (t * real n)" by (simp add: algebra_simps)
  then have "\<lfloor>real n * (1 - t)\<rfloor> = int n + \<lfloor>- (t * real n)\<rfloor>"
    by (metis floor_add_int add.commute)
  then show ?thesis by (simp add: ceiling_def)
qed

lemma n_train_bounds:
  assumes "0 < t" "t < 1"
  shows "0 \<le> \<lfloor>real n * (1 - t)\<rfloor>" "\<lfloor>real n * (1 - t)\<rfloor> \<le> int n"
        "n > 0 \<Longrightarrow> \<lfloor>real n * (1 - t)\<rfloor> < int n"
proof -
  show "0 \<le> \<lfloor>real n * (1 - t)\<rfloor>" using assms by simp
  have "real n * (1 - t) \<le> real n" using assms by (simp add: mult_left_le)
  then show "\<lfloor>real n * (1 - t)\<rfloor> \<le> int n" by linarith
  show "\<lfloor>real n * (1 - t)\<rfloor> < int n" if "n > 0"
  proof -
    have "real n * (1 - t) < real n" using assms that by simp
    then show ?thesis by linarith
  qed
qed

lemma validate_shuffle_split_eq:
  assumes "0 < t" "t < 1"
  shows "validate_shuffle_split n t =
           (if \<lfloor>real n * (1 - t)\<rfloor> = 0
            then Inl (ValueError ''the resulting train set will be empty'')
            else Inr (nat \<lfloor>real n * (1 - t)\<rfloor>, n - nat \<lfloor>real n * (1 - t)\<rfloor>))"
proof -
  let ?k = "\<lfloor>real n * (1 - t)\<rfloor>"
  have c: "\<lceil>t * real n\<rceil> = int n - ?k" using n_train_floor[of n t] by simp
  have b: "0 \<le> ?k" "?k \<le> int n" using n_train_bounds[OF assms] by auto
  have "nat (int n - ?k) = n - nat ?k" using b by linarith
  then show ?thesis using assms b
    by (simp add: validate_shuffle_split_def c Let_def)
qed

lemma map_nth_upt_take: "k \<le> length xs \<Longrightarrow> map (\<lambda>i. xs ! i) [0..<k] = take k xs"
  by (simp add: list_eq_iff_nth_eq)

lemma map_nth_upt_drop:
  "k \<le> length xs \<Longrightarrow> n = length xs \<Longrightarrow> map (\<lambda>i. xs ! i) [k..<n] = drop k xs"
  by (simp add: list_eq_iff_nth_eq)

lemma train_test_split_eq:
  assumes "0 < t" "t < 1" "length X = length y"
  shows "train_test_split X y t =
           (let k = nat \<lfloor>real (length X) * (1 - t)\<rfloor> in
            if k = 0 then Inl (ValueError ''the resulting train set will be empty'')
            else Inr (take k X, drop k X, take k y, drop k y))"
proof -
  let ?n = "length X"
  let ?k = "nat \<lfloor>real ?n * (1 - t)\<rfloor>"
  have b: "0 \<le> \<lfloor>real ?n * (1 - t)\<rfloor>" "?k \<le> ?n"
    using n_train_bounds[OF assms(1,2), of ?n] by auto
  have z: "(\<lfloor>real ?n * (1 - t)\<rfloor> = 0) = (?k = 0)" using b by linarith
  show ?thesis
  proof (cases "?k = 0")
    case True
    then show ?thesis using assms z
      by (simp add: train_test_split_def validate_shuffle_split_eq Let_def)
  next
    case False
    show ?thesis using False assms z b
      by (simp add: train_test_split_def validate_shuffle_split_eq Let_def
          map_nth_upt_take map_nth_upt_drop)
  qed
qed

section \<open>Training on complete feature rows\<close>

lemma those_map_Some: "those (map Some xs) = Some xs"
  by (induction xs) simp_all

lemma check_array_numbers:
  "M \<noteq> [] \<Longrightarrow> check_array (map (map Some) M) = Inr M"
proof -
  assume "M \<noteq> []"
  have "map those (map (map Some) M) = map Some M"
    by (simp add: those_map_Some)
  then have "those (map those (map (map Some) M)) = Some M"
    by (simp only: those_map_Some)
  then show ?thesis using \<open>M \<noteq> []\<close> by (simp add: check_array_def)
qed














lemma make_features_short: "length df \<le> 3 \<Longrightarrow> make_features df = []"
proof -
  assume a: "length df \<le> 3"
  have "\<And>i. i < length df \<Longrightarrow> shift 3 (map Close df) ! i = None"
    using a by (simp add: shift_nth)
  then show ?thesis
    by (simp add: make_features_def dropna_features_def Let_def feature_isna_def
        add_columns_def filter_empty_conv)
qed




section \<open>The trainer\<close>








section \<open>Fetched tables and the last rows\<close>

lemma download_data_complete: "r \<in> set (download_data yf tk p) \<Longrightarrow> \<not> price_isna r"
  by (simp add: download_data_def dropna_def Let_def)

lemma download_data_no_rows: "yf tk p = [] \<Longrightarrow> download_data yf tk p = []"
  by (simp add: download_data_def reset_index_def dropna_def)

lemma download_week: "download_data week_provider tk p = week"
  by (simp add: download_data_def reset_index_def dropna_def week_provider_def raw_day_def
      week_def day_row_def price_isna_def upt_conv_Cons)

lemma length_tail: "length (tail k xs) = min k (length xs)"
  by (simp add: tail_def)

lemma set_tail: "r \<in> set (tail k xs) \<Longrightarrow> r \<in> set xs"
  by (auto simp: tail_def dest: in_set_dropD)

lemma last_tail: "0 < k \<Longrightarrow> xs \<noteq> [] \<Longrightarrow> last (tail k xs) = last xs"
  by (simp add: tail_def)

lemma tail_all: "length xs \<le> k \<Longrightarrow> tail k xs = xs"
  by (simp add: tail_def)

text \<open>The features of the last four rows of a complete table: one row, with \<open>Day = 3\<close>.\<close>

lemma make_features_tail4:
  assumes "\<forall>r \<in> set df. \<not> price_isna r" "4 \<le> length df"
  shows "\<exists>c1 c2 c3.
           make_features (tail 4 df) = [add_columns (last df) 3 (Some c1) (Some c2) (Some c3)]"
proof -
  let ?tw = "tail 4 df"
  have l: "length ?tw = 4" using assms(2) by (simp add: length_tail)
  have c: "\<forall>r \<in> set ?tw. \<not> price_isna r" using assms(1) by (auto dest: set_tail)
  have u: "[3..<4] = [3::nat]" by (simp add: upt_conv_Cons)
  have ne: "df \<noteq> []" "?tw \<noteq> []" using assms(2) l by auto
  have "last ?tw = ?tw ! (length ?tw - 1)" using ne(2) by (rule last_conv_nth)
  then have la: "?tw ! 3 = last df"
    using last_tail[of 4 df] ne(1) by (simp add: l)
  have some: "\<And>i. i < length ?tw \<Longrightarrow> \<not> price_isna (?tw ! i)"
    using c by simp
  have "Close (?tw ! 2) \<noteq> None" "Close (?tw ! 1) \<noteq> None" "Close (?tw ! 0) \<noteq> None"
    using some[of 2] some[of 1] some[of 0] by (simp_all add: l price_isna_def)
  then obtain c1 c2 c3 where "Close (?tw ! 2) = Some c1" "Close (?tw ! 1) = Some c2"
    "Close (?tw ! 0) = Some c3" by auto
  then have "make_features ?tw = [add_columns (last df) 3 (Some c1) (Some c2) (Some c3)]"
    using la by (simp add: make_features_eq[OF c] l u)
  then show ?thesis by blast
qed



lemma train_model_no_training_rows:
  assumes "0 < t" "t < 1" "\<lfloor>real (length df) * (1 - t)\<rfloor> = 0"
  shows "train_model solve df t w =
           (Inl (ValueError ''the resulting train set will be empty''), w)"
  using assms(3) train_test_split_eq[OF assms(1,2), of "select_X df" "select_y df"]
  by (simp add: train_model_def select_X_def select_y_def Let_def)

lemma pipe_predict_one_row:
  assumes "length (sc_mean (scaler p)) = 4" "length (sc_scale (scaler p)) = 4"
    "0 \<notin> set (sc_scale (scaler p))" "length (lr_coef (lr p)) = 4"
  shows "\<exists>v. pipe_predict p [map Some [x1, x2, x3, x4]] = Inr [v]"
proof -
  have "check_array (map (map Some) [[x1, x2, x3, x4]]) = Inr [[x1, x2, x3, x4]]"
    by (rule check_array_numbers) simp
  then have c: "check_array [[Some x1, Some x2, Some x3, Some x4]] = Inr [[x1, x2, x3, x4]]"
    by simp
  show ?thesis using assms
    by (simp add: pipe_predict_def c n_features_def LinearRegression_predict_def
        StandardScaler_transform_def)
qed

lemma load_world_with: "joblib_load (world_with obj) ''models/acme_lr.pkl'' = Inr obj"
  by (simp add: joblib_load_def world_with_def)



section \<open>The runs of the command line\<close>

text \<open>
  C5, as the code has it. When the data provider returns no rows, \<open>download_data\<close>
  returns the empty table and raises nothing, and \<open>make_features\<close> returns the empty
  table. A training run with a test fraction strictly between 0 and 1 then fails in the
  split itself: its error is the \<open>ValueError\<close> that \<open>train_test_split\<close> raises for an
  empty training set. The provider has been called once, nothing is retried, printed or
  written.
\<close>

theorem main_train_no_rows:
  assumes "\<not> predict a" "yf (ticker a) (period a) = []" "0 < test_size a" "test_size a < 1"
  shows "download_data yf (ticker a) (period a) = [] \<and>
         make_features (download_data yf (ticker a) (period a)) = [] \<and>
         train_test_split (select_X (make_features (download_data yf (ticker a) (period a))))
           (select_y (make_features (download_data yf (ticker a) (period a)))) (test_size a) =
           Inl (ValueError ''the resulting train set will be empty'') \<and>
         main solve yf a w =
           (Inl (ValueError ''the resulting train set will be empty''),
            emit w (Network (ticker a) (period a)))"
proof -
  have d: "download_data yf (ticker a) (period a) = []"
    using assms(2) by (rule download_data_no_rows)
  have f: "make_features [] = []" by (simp add: make_features_short)
  have s: "train_test_split (select_X []) (select_y []) (test_size a) =
             Inl (ValueError ''the resulting train set will be empty'')"
    using train_test_split_eq[OF assms(3,4), of "select_X []" "select_y []"]
    by (simp add: select_X_def select_y_def)
  have "train_model solve [] (test_size a) (emit w (Network (ticker a) (period a))) =
          (Inl (ValueError ''the resulting train set will be empty''),
           emit w (Network (ticker a) (period a)))"
    using train_model_no_training_rows[OF assms(3,4), of "[]"] by simp
  then show ?thesis using assms(1) d f s by (simp add: main_def)
qed

theorem main_train_no_rows_witness:
  "main zero_solver no_rows train_args (world_with (PyOther ''dict'')) =
     (Inl (ValueError ''the resulting train set will be empty''),
      emit (world_with (PyOther ''dict'')) (Network ''ACME'' ''5y''))"
  using main_train_no_rows[of train_args no_rows zero_solver "world_with (PyOther ''dict'')"]
  by (simp add: train_args_def no_rows_def)

text \<open>
  C5 as the specification states it, an error of the fetch raised before any split is
  attempted, fails: on a provider without rows the fetch returns normally, and the error
  of the run is the one the attempted split returns.
\<close>

theorem empty_fetch_counterexample:
  "download_data no_rows ''ACME'' ''5y'' = [] \<and>
   train_test_split (select_X (make_features (download_data no_rows ''ACME'' ''5y'')))
     (select_y (make_features (download_data no_rows ''ACME'' ''5y''))) (1 / 2) =
     Inl (ValueError ''the resulting train set will be empty'') \<and>
   main zero_solver no_rows train_args empty_world =
     (Inl (ValueError ''the resulting train set will be empty''),
      emit empty_world (Network ''ACME'' ''5y''))"
proof -
  have d: "download_data no_rows ''ACME'' ''5y'' = []"
    by (simp add: download_data_no_rows no_rows_def)
  have f: "make_features [] = []" by (simp add: make_features_short)
  have s: "train_test_split (select_X []) (select_y []) (1 / 2) =
             Inl (ValueError ''the resulting train set will be empty'')"
    by (simp add: train_test_split_eq select_X_def select_y_def)
  show ?thesis
    by (simp add: d f s main_def train_args_def train_model_def)
qed

text \<open>
  C7. A run with \<open>--predict\<close> and no model path (the flag absent, or its value empty)
  exits through \<open>ap.error\<close> with status 2 and the usage message on the error stream,
  before the model is loaded or the data provider is called: the world is unchanged but
  for that message.
\<close>

theorem main_predict_without_model_path:
  assumes "predict a" "model_path a = None \<or> model_path a = Some []"
  shows "main solve yf a w =
           (Inl (SystemExit 2), emit w (Stderr ''--model_path is required with --predict'')) \<and>
         network_calls (snd (main solve yf a w)) = network_calls w \<and>
         files (snd (main solve yf a w)) = files w"
  using assms by (auto simp: main_def ap_error_def network_calls_def emit_def)

theorem main_predict_without_model_path_witness:
  "main zero_solver week_provider (predict_args\<lparr>model_path := None\<rparr>) empty_world =
     (Inl (SystemExit 2),
      \<lparr>files = Map.empty, trace = [Stderr ''--model_path is required with --predict'']\<rparr>) \<and>
   network_calls (snd (main zero_solver week_provider (predict_args\<lparr>model_path := None\<rparr>)
     empty_world)) = []"
  using main_predict_without_model_path[of "predict_args\<lparr>model_path := None\<rparr>" zero_solver
      week_provider empty_world]
  by (simp add: predict_args_def empty_world_def emit_def network_calls_def)

text \<open>
  C8. In predict mode, with a model path whose file loads as a pipeline over four
  features (with non-zero scales), and a fetched window of at least four rows: the
  features of the last four rows are exactly one row, built on the most recent price
  row; the pipeline is applied to its four feature values; the run ends normally, having
  called the provider once and printed one forecast, the pipeline's value for that row.
\<close>

theorem main_predict_one_forecast:
  assumes "predict a" "model_path a = Some path" "path \<noteq> []"
    and "joblib_load w path = Inr (PyPipeline p)"
    and "length (sc_mean (scaler p)) = 4" "length (sc_scale (scaler p)) = 4"
    and "0 \<notin> set (sc_scale (scaler p))" "length (lr_coef (lr p)) = 4"
    and "4 \<le> length (download_data yf (ticker a) ''10d'')"
  shows "\<exists>row x v.
           make_features (tail 4 (download_data yf (ticker a) ''10d'')) = [row] \<and>
           price_row.truncate row = last (download_data yf (ticker a) ''10d'') \<and>
           map snd (select_X [row]) = [map Some x] \<and> length x = 4 \<and>
           pipe_predict p [map Some x] = Inr [v] \<and>
           main solve yf a w =
             (Inr (), emit (emit w (Network (ticker a) ''10d'')) (Stdout (Forecast (ticker a) v)))"
proof -
  let ?win = "download_data yf (ticker a) ''10d''"
  have c: "\<forall>r \<in> set ?win. \<not> price_isna r" using download_data_complete by blast
  obtain c1 c2 c3 where
    f: "make_features (tail 4 ?win) = [add_columns (last ?win) 3 (Some c1) (Some c2) (Some c3)]"
    using make_features_tail4[OF c assms(9)] by blast
  let ?row = "add_columns (last ?win) 3 (Some c1) (Some c2) (Some c3)"
  let ?x = "[3, c1, c2, c3]"
  have t: "price_row.truncate ?row = last ?win"
    by (simp add: add_columns_def price_row.truncate_def)
  have x: "map snd (select_X [?row]) = [map Some ?x]"
    by (simp add: select_X_def add_columns_def)
  obtain v where v: "pipe_predict p [map Some ?x] = Inr [v]"
    using pipe_predict_one_row[OF assms(5-8)] by blast
  have "main solve yf a w =
          (Inr (), emit (emit w (Network (ticker a) ''10d'')) (Stdout (Forecast (ticker a) v)))"
    using assms(1-4) f x v
    by (simp add: main_def Let_def tail_all py_predict_def)
  then show ?thesis using f t x v by (intro exI[of _ ?row] exI[of _ ?x] exI[of _ v]) simp
qed

theorem main_predict_one_forecast_witness:
  "length (make_features (tail 4 (download_data week_provider ''ACME'' ''10d''))) = 1 \<and>
   main zero_solver week_provider predict_args (world_with (PyPipeline naive_pipe)) =
     (Inr (), emit (emit (world_with (PyPipeline naive_pipe)) (Network ''ACME'' ''10d''))
                (Stdout (Forecast ''ACME'' 13)))"
proof -
  have h: "predict predict_args" "model_path predict_args = Some ''models/acme_lr.pkl''"
    "''models/acme_lr.pkl'' \<noteq> []" "ticker predict_args = ''ACME''"
    by (simp_all add: predict_args_def)
  have p: "length (sc_mean (scaler naive_pipe)) = 4" "length (sc_scale (scaler naive_pipe)) = 4"
    "0 \<notin> set (sc_scale (scaler naive_pipe))" "length (lr_coef (lr naive_pipe)) = 4"
    by (simp_all add: naive_pipe_def)
  have n: "4 \<le> length (download_data week_provider (ticker predict_args) ''10d'')"
    by (simp add: download_week week_def)
  from main_predict_one_forecast[OF h(1-3) load_world_with p n, of zero_solver]
  obtain row x v where
    r: "make_features (tail 4 (download_data week_provider ''ACME'' ''10d'')) = [row]"
       "price_row.truncate row = last (download_data week_provider ''ACME'' ''10d'')"
       "map snd (select_X [row]) = [map Some x]"
       "pipe_predict naive_pipe [map Some x] = Inr [v]"
       "main zero_solver week_provider predict_args (world_with (PyPipeline naive_pipe)) =
          (Inr (), emit (emit (world_with (PyPipeline naive_pipe)) (Network ''ACME'' ''10d''))
                     (Stdout (Forecast ''ACME'' v)))"
    unfolding h(4) by (elim exE conjE) (rule that)
  have t: "tail 4 week = [day_row 1 11, day_row 2 12, day_row 3 13, day_row 4 14]"
    by (simp add: tail_def week_def)
  let ?tw = "[day_row 1 11, day_row 2 12, day_row 3 13, day_row 4 14]"
  have c: "\<forall>r \<in> set ?tw. \<not> price_isna r"
    by (simp add: day_row_def price_isna_def)
  have u: "[3..<4] = [3::nat]" by (simp add: upt_conv_Cons)
  have "make_features ?tw = [add_columns (day_row 4 14) 3 (Some 13) (Some 12) (Some 11)]"
    by (subst make_features_eq[OF c]) (simp add: u day_row_def eval_nat_numeral)
  then have "make_features (tail 4 week) =
               [add_columns (day_row 4 14) 3 (Some 13) (Some 12) (Some 11)]"
    by (simp only: t)
  then have row: "row = add_columns (day_row 4 14) 3 (Some 13) (Some 12) (Some 11)"
    using r(1) by (simp add: download_week)
  then have "map Some x = [Some 3, Some 13, Some 12, Some 11]"
    using r(3) by (simp add: select_X_def add_columns_def)
  then have "pipe_predict naive_pipe [[Some 3, Some 13, Some 12, Some 11]] = Inr [v]"
    using r(4) by simp
  moreover have "check_array [[Some 3, Some 13, Some 12, Some 11]] = Inr [[3, 13, 12, 11]]"
    using check_array_numbers[of "[[3, 13, 12, 11]]"] by simp
  ultimately have "v = 13"
    by (simp add: pipe_predict_def naive_pipe_def n_features_def LinearRegression_predict_def
        StandardScaler_transform_def dot_def upt_conv_Cons)
  then show ?thesis using r(1,5) by simp
qed



section \<open>Persistence\<close>






end
